theory Spec2Isabelle
  imports Complex_Main
begin

section \<open>Facility location optimizer: data store, calculate action, service radii\<close>

text \<open>
  A point is the tuple \<^verbatim>\<open>(x, y)\<close> of two Python floats. The data store only moves
  the coordinates around, so there they are taken as real numbers. The plotter computes with
  them, in numpy's \<^verbatim>\<open>float64\<close>; its arrays are modelled with the doubles of
  IEEE 754, rounding included.
\<close>

type_synonym point = "real \<times> real"

subsection \<open>data_manager.py: class DataManager\<close>

text \<open>
  The four attributes of \<^verbatim>\<open>DataManager\<close>. The two result attributes are either
  \<^verbatim>\<open>None\<close> or a numpy array: the array of cluster centers (one row per facility)
  and the array of labels (one cluster index per customer).
\<close>

record data_manager =
  customer_data :: "point list"
  initial_facility_locations :: "point list"
  optimal_facility_locations :: "point list option"
  cluster_labels :: "nat list option"

text \<open>\<^verbatim>\<open>__init__\<close>: two empty lists, both result attributes \<^verbatim>\<open>None\<close>.\<close>

definition DataManager_init :: data_manager where
  "DataManager_init =
     \<lparr>customer_data = [], initial_facility_locations = [],
      optimal_facility_locations = None, cluster_labels = None\<rparr>"

text \<open>\<^verbatim>\<open>self.customer_data.append((x, y))\<close>\<close>

definition add_customer :: "data_manager \<Rightarrow> real \<Rightarrow> real \<Rightarrow> data_manager" where
  "add_customer dm x y = dm\<lparr>customer_data := customer_data dm @ [(x, y)]\<rparr>"

text \<open>\<^verbatim>\<open>self.initial_facility_locations.append((x, y))\<close>\<close>

definition add_initial_facility :: "data_manager \<Rightarrow> real \<Rightarrow> real \<Rightarrow> data_manager" where
  "add_initial_facility dm x y =
     dm\<lparr>initial_facility_locations := initial_facility_locations dm @ [(x, y)]\<rparr>"

text \<open>\<^verbatim>\<open>self.customer_data = []\<close> and nothing more.\<close>

definition clear_customers :: "data_manager \<Rightarrow> data_manager" where
  "clear_customers dm = dm\<lparr>customer_data := []\<rparr>"

text \<open>
  \<^verbatim>\<open>self.initial_facility_locations = []\<close>,
  \<^verbatim>\<open>self.optimal_facility_locations = None\<close>, \<^verbatim>\<open>self.cluster_labels = None\<close>.
\<close>

definition clear_facilities :: "data_manager \<Rightarrow> data_manager" where
  "clear_facilities dm =
     dm\<lparr>initial_facility_locations := [],
        optimal_facility_locations := None,
        cluster_labels := None\<rparr>"

text \<open>
  \<^verbatim>\<open>set_optimal_facilities(locations, labels)\<close> stores its two arguments, which its
  docstring types as numpy arrays.
\<close>

definition set_optimal_facilities ::
  "data_manager \<Rightarrow> point list \<Rightarrow> nat list \<Rightarrow> data_manager" where
  "set_optimal_facilities dm locations labels =
     dm\<lparr>optimal_facility_locations := Some locations, cluster_labels := Some labels\<rparr>"

text \<open>
  The Excel imports depend on the file dialog and on pandas. Both are inputs of the model:
  \<open>filepath\<close> is what the dialog returned (empty when the user cancelled) and
  \<open>read_excel\<close> is what \<^verbatim>\<open>pd.read_excel\<close> does with a path: it raises, or it
  returns a frame, read here as a map from column names to columns. The message boxes are
  not part of the store and are left out; the boolean is the method's return value.
\<close>

datatype exn = Exception string

type_synonym dataframe = "string \<rightharpoonup> real list"

definition import_customers_excel ::
  "string \<Rightarrow> (string \<Rightarrow> exn + dataframe) \<Rightarrow> data_manager \<Rightarrow> data_manager \<times> bool" where
  "import_customers_excel filepath read_excel dm =
     (if filepath = [] then (dm, False)
      else case read_excel filepath of
        Inl e \<Rightarrow> (dm, False)
      | Inr df \<Rightarrow>
          (case df ''X'' of
             None \<Rightarrow> (dm, False)
           | Some xs \<Rightarrow>
               (case df ''Y'' of
                  None \<Rightarrow> (dm, False)
                | Some ys \<Rightarrow>
                    (let new_customers = zip xs ys
                     in (dm\<lparr>customer_data := customer_data dm @ new_customers\<rparr>, True)))))"

definition import_facilities_excel ::
  "string \<Rightarrow> (string \<Rightarrow> exn + dataframe) \<Rightarrow> data_manager \<Rightarrow> data_manager \<times> bool" where
  "import_facilities_excel filepath read_excel dm =
     (if filepath = [] then (dm, False)
      else case read_excel filepath of
        Inl e \<Rightarrow> (dm, False)
      | Inr df \<Rightarrow>
          (case df ''X'' of
             None \<Rightarrow> (dm, False)
           | Some xs \<Rightarrow>
               (case df ''Y'' of
                  None \<Rightarrow> (dm, False)
                | Some ys \<Rightarrow>
                    (let new_facilities = zip xs ys
                     in (dm\<lparr>initial_facility_locations :=
                              initial_facility_locations dm @ new_facilities\<rparr>, True)))))"

text \<open>
  The operations a client can invoke on a store, and a store after a sequence of them,
  starting from \<^verbatim>\<open>DataManager()\<close>.
\<close>

datatype store_op =
    AddCustomer real real
  | AddInitialFacility real real
  | ClearCustomers
  | ClearFacilities
  | SetOptimalFacilities "point list" "nat list"
  | ImportCustomersExcel string "string \<Rightarrow> exn + dataframe"
  | ImportFacilitiesExcel string "string \<Rightarrow> exn + dataframe"

fun apply_op :: "data_manager \<Rightarrow> store_op \<Rightarrow> data_manager" where
  "apply_op dm (AddCustomer x y) = add_customer dm x y"
| "apply_op dm (AddInitialFacility x y) = add_initial_facility dm x y"
| "apply_op dm ClearCustomers = clear_customers dm"
| "apply_op dm ClearFacilities = clear_facilities dm"
| "apply_op dm (SetOptimalFacilities locations labels) =
     set_optimal_facilities dm locations labels"
| "apply_op dm (ImportCustomersExcel filepath read_excel) =
     fst (import_customers_excel filepath read_excel dm)"
| "apply_op dm (ImportFacilitiesExcel filepath read_excel) =
     fst (import_facilities_excel filepath read_excel dm)"

definition run_ops :: "store_op list \<Rightarrow> data_manager" where
  "run_ops ops = foldl apply_op DataManager_init ops"

text \<open>The two result attributes are both \<^verbatim>\<open>None\<close> or both set.\<close>

definition result_inv :: "data_manager \<Rightarrow> bool" where
  "result_inv dm \<longleftrightarrow>
     (optimal_facility_locations dm = None) = (cluster_labels dm = None)"

text \<open>The operations whose body assigns to one of the two result attributes.\<close>

fun touches_result :: "store_op \<Rightarrow> bool" where
  "touches_result (SetOptimalFacilities locations labels) = True"
| "touches_result ClearFacilities = True"
| "touches_result _ = False"

subsection \<open>optimizer.py: Optimizer.run_kmeans\<close>

text \<open>
  \<^verbatim>\<open>run_kmeans\<close> builds a \<^verbatim>\<open>sklearn.cluster.KMeans\<close> estimator and fits it. The
  estimator belongs to scikit-learn, not to this program, so the fit is a parameter of the
  model: a function from the constructor arguments and the data to either the exception it
  raises or the pair \<^verbatim>\<open>(cluster_centers_, labels_)\<close>. \<open>customers\<close> and
  \<open>initial_facilities\<close> are the arguments \<^verbatim>\<open>customer_data\<close> and
  \<^verbatim>\<open>initial_facility_locations\<close>.
\<close>

record kmeans_params =
  n_clusters :: nat
  init :: "point list"
  n_init :: nat
  random_state :: nat

type_synonym kmeans_fit = "kmeans_params \<Rightarrow> point list \<Rightarrow> exn + (point list \<times> nat list)"

definition run_kmeans ::
  "kmeans_fit \<Rightarrow> point list \<Rightarrow> point list \<Rightarrow> exn + (point list \<times> nat list)" where
  "run_kmeans fit customers initial_facilities =
     (let customer_np_data = customers;
          initial_locations = initial_facilities;
          k = length initial_locations
      in fit \<lparr>n_clusters = k, init = initial_locations, n_init = 1, random_state = 0\<rparr>
             customer_np_data)"

subsection \<open>gui.py: KMeansApp._run_calculation\<close>

text \<open>
  The message boxes the action opens are its visible output. \<open>str\<close> is Python's
  \<^verbatim>\<open>str(e)\<close>, which the f-string of the handler applies to the exception.
\<close>

datatype message =
    ShowWarning string string
  | ShowError string string
  | ShowInfo string string

fun str :: "exn \<Rightarrow> string" where
  "str (Exception msg) = msg"

text \<open>
  \<^verbatim>\<open>_update_display\<close> redraws the Tk widgets and the matplotlib canvas from the store.
  It is a parameter: \<open>None\<close> when it returns, \<open>Some e\<close> when it raises \<open>e\<close>. It runs
  inside the \<^verbatim>\<open>try\<close> block, after the result has been stored.
\<close>

definition run_calculation ::
  "kmeans_fit \<Rightarrow> (data_manager \<Rightarrow> exn option) \<Rightarrow> data_manager
     \<Rightarrow> data_manager \<times> message list" where
  "run_calculation fit update_display dm =
     (if customer_data dm = [] then
        (dm, [ShowWarning ''No Customers'' ''Please add customer locations first.''])
      else if initial_facility_locations dm = [] then
        (dm, [ShowWarning ''No Facilities''
                ''Please add initial facility locations first.''])
      else
        (case run_kmeans fit (customer_data dm) (initial_facility_locations dm) of
           Inl e \<Rightarrow>
             (dm, [ShowError ''Error'' (''An error occurred during calculation: '' @ str e)])
         | Inr (optimal_locations, labels) \<Rightarrow>
             (let dm' = set_optimal_facilities dm optimal_locations labels
              in case update_display dm' of
                   Some e \<Rightarrow>
                     (dm', [ShowError ''Error''
                              (''An error occurred during calculation: '' @ str e)])
                 | None \<Rightarrow>
                     (dm', [ShowInfo ''Calculation Complete''
                              ''Optimal facility locations calculated!'']))))"

subsection \<open>numpy's float64\<close>

text \<open>
  A double is a finite value, an infinity or NaN. \<open>Finite\<close> carries the value as a real
  number; the operations below only ever return representable ones. The two zeros are not
  told apart: they compare equal, and nothing here divides. Every arithmetic operation returns the exact
  result rounded to the nearest double, ties to the even significand: 53 significant bits
  down to the exponent \<open>-1022\<close>, below it the fixed spacing \<open>2 powr -1074\<close> of the
  subnormals, and an infinity once the rounded magnitude reaches \<open>2 ^ 1024\<close>.
\<close>

datatype float64 = Finite real | PInf | NInf | NaN

definition round_half_even :: "real \<Rightarrow> int" where
  "round_half_even q =
     (let f = \<lfloor>q\<rfloor>; d = q - of_int f
      in if d < 1 / 2 then f else if 1 / 2 < d then f + 1 else if even f then f else f + 1)"

definition round64 :: "real \<Rightarrow> float64" where
  "round64 r =
     (if r = 0 then Finite 0
      else
        (let e = max \<lfloor>log 2 \<bar>r\<bar>\<rfloor> (- 1022);
             ulp = 2 powr of_int (e - 52);
             v = of_int (round_half_even (r / ulp)) * ulp
         in if 2 ^ 1024 \<le> v then PInf
            else if v \<le> - (2 ^ 1024) then NInf
            else Finite v))"

text \<open>
  Addition, subtraction, multiplication and square root of doubles, with the special
  cases of the standard: NaN propagates, \<open>inf - inf\<close> and \<open>0 * inf\<close> are NaN, the root of a
  negative number is NaN.
\<close>

fun fadd :: "float64 \<Rightarrow> float64 \<Rightarrow> float64" where
  "fadd NaN b = NaN"
| "fadd a NaN = NaN"
| "fadd PInf NInf = NaN"
| "fadd NInf PInf = NaN"
| "fadd PInf b = PInf"
| "fadd NInf b = NInf"
| "fadd a PInf = PInf"
| "fadd a NInf = NInf"
| "fadd (Finite a) (Finite b) = round64 (a + b)"

fun fsub :: "float64 \<Rightarrow> float64 \<Rightarrow> float64" where
  "fsub NaN b = NaN"
| "fsub a NaN = NaN"
| "fsub PInf PInf = NaN"
| "fsub NInf NInf = NaN"
| "fsub PInf b = PInf"
| "fsub NInf b = NInf"
| "fsub a PInf = NInf"
| "fsub a NInf = PInf"
| "fsub (Finite a) (Finite b) = round64 (a - b)"

fun fmul :: "float64 \<Rightarrow> float64 \<Rightarrow> float64" where
  "fmul NaN b = NaN"
| "fmul a NaN = NaN"
| "fmul (Finite a) (Finite b) = round64 (a * b)"
| "fmul (Finite a) PInf = (if a = 0 then NaN else if 0 < a then PInf else NInf)"
| "fmul (Finite a) NInf = (if a = 0 then NaN else if 0 < a then NInf else PInf)"
| "fmul PInf (Finite b) = (if b = 0 then NaN else if 0 < b then PInf else NInf)"
| "fmul NInf (Finite b) = (if b = 0 then NaN else if 0 < b then NInf else PInf)"
| "fmul PInf PInf = PInf"
| "fmul PInf NInf = NInf"
| "fmul NInf PInf = NInf"
| "fmul NInf NInf = PInf"

fun fsqrt :: "float64 \<Rightarrow> float64" where
  "fsqrt NaN = NaN"
| "fsqrt PInf = PInf"
| "fsqrt NInf = NaN"
| "fsqrt (Finite a) = (if a < 0 then NaN else round64 (sqrt a))"

fun f64_le :: "float64 \<Rightarrow> float64 \<Rightarrow> bool" where
  "f64_le NaN b = False"
| "f64_le a NaN = False"
| "f64_le NInf b = True"
| "f64_le a PInf = True"
| "f64_le PInf b = False"
| "f64_le a NInf = False"
| "f64_le (Finite a) (Finite b) = (a \<le> b)"

definition np_maximum :: "float64 \<Rightarrow> float64 \<Rightarrow> float64" where
  "np_maximum a b = (if a = NaN \<or> b = NaN then NaN else if f64_le b a then a else b)"

subsection \<open>plotter.py: the radii of Plotter._plot_optimal_facilities\<close>

text \<open>
  The numpy operations of the loop. \<^verbatim>\<open>cluster_labels == i\<close> compares elementwise;
  indexing an array with a boolean array raises \<^verbatim>\<open>IndexError\<close> unless both have the
  same length along the first axis, and otherwise keeps the rows whose flag is true. The
  subtraction broadcasts the facility over the rows. \<^verbatim>\<open>np.linalg.norm(..., axis=1)\<close>
  multiplies each entry by itself, adds the two products of a row and takes the root, each
  step rounded. \<^verbatim>\<open>np.max\<close> reduces with \<^verbatim>\<open>np.maximum\<close> from the left and raises
  \<^verbatim>\<open>ValueError\<close> on an empty array. \<open>customers\<close> is the float64 array
  \<^verbatim>\<open>np.array(self.data_manager.customer_data)\<close> at the time of drawing, \<open>labels\<close> is
  the argument \<^verbatim>\<open>cluster_labels\<close>.
\<close>

type_synonym point64 = "float64 \<times> float64"

datatype np_error = IndexError | ValueError

definition np_equal :: "nat list \<Rightarrow> nat \<Rightarrow> bool list" where
  "np_equal labels i = map (\<lambda>l. l = i) labels"

definition boolean_index :: "'a list \<Rightarrow> bool list \<Rightarrow> np_error + 'a list" where
  "boolean_index arr flags =
     (if length flags \<noteq> length arr then Inl IndexError
      else Inr (map fst (filter snd (zip arr flags))))"

definition subtract_row :: "point64 list \<Rightarrow> point64 \<Rightarrow> point64 list" where
  "subtract_row rows c = map (\<lambda>(x, y). (fsub x (fst c), fsub y (snd c))) rows"

definition linalg_norm_axis1 :: "point64 list \<Rightarrow> float64 list" where
  "linalg_norm_axis1 rows = map (\<lambda>(dx, dy). fsqrt (fadd (fmul dx dx) (fmul dy dy))) rows"

fun np_max :: "float64 list \<Rightarrow> np_error + float64" where
  "np_max [] = Inl ValueError"
| "np_max (d # ds) = Inr (fold (\<lambda>x acc. np_maximum acc x) ds d)"

text \<open>
  One round of the loop \<^verbatim>\<open>for i in range(len(optimal_locations))\<close>: the value
  appended to \<^verbatim>\<open>radii\<close>, or the exception that leaves the loop.
\<close>

definition cluster_radius ::
  "point64 list \<Rightarrow> point64 list \<Rightarrow> nat list \<Rightarrow> nat \<Rightarrow> np_error + float64" where
  "cluster_radius customers optimal_locations labels i =
     (case boolean_index customers (np_equal labels i) of
        Inl e \<Rightarrow> Inl e
      | Inr cluster_points \<Rightarrow>
          if length cluster_points > 0 then
            (let distances =
                   linalg_norm_axis1 (subtract_row cluster_points (optimal_locations ! i))
             in np_max distances)
          else Inr (Finite 0))"

fun radii_loop ::
  "point64 list \<Rightarrow> point64 list \<Rightarrow> nat list \<Rightarrow> nat list \<Rightarrow> float64 list
     \<Rightarrow> np_error + float64 list" where
  "radii_loop customers optimal_locations labels [] radii = Inr radii"
| "radii_loop customers optimal_locations labels (i # rest) radii =
     (case cluster_radius customers optimal_locations labels i of
        Inl e \<Rightarrow> Inl e
      | Inr r \<Rightarrow>
          radii_loop customers optimal_locations labels rest (radii @ [r]))"

definition service_radii ::
  "point64 list \<Rightarrow> point64 list \<Rightarrow> nat list \<Rightarrow> np_error + float64 list" where
  "service_radii customers optimal_locations labels =
     radii_loop customers optimal_locations labels
       [0..<length optimal_locations] []"

text \<open>
  The service radius as the specification words it, over real coordinates: the largest
  Euclidean distance from the facility to a customer whose label is \<open>i\<close>, and zero when
  no customer has label \<open>i\<close>.
\<close>

definition euclidean_distance :: "point \<Rightarrow> point \<Rightarrow> real" where
  "euclidean_distance p q = sqrt ((fst p - fst q)\<^sup>2 + (snd p - snd q)\<^sup>2)"

definition assigned_customers :: "'a list \<Rightarrow> nat list \<Rightarrow> nat \<Rightarrow> 'a set" where
  "assigned_customers customers labels i =
     (\<lambda>j. customers ! j) ` {j \<in> {..<length customers}. labels ! j = i}"

definition spec_service_radius :: "point \<Rightarrow> point list \<Rightarrow> nat list \<Rightarrow> nat \<Rightarrow> real" where
  "spec_service_radius facility customers labels i =
     (if assigned_customers customers labels i = {} then 0
      else Max (euclidean_distance facility ` assigned_customers customers labels i))"

text \<open>
  The same with the distance numpy computes: the rounded root of the rounded sum of the
  rounded squares of the rounded coordinate differences. \<open>is_largest r D\<close> says that
  \<open>r\<close> is the greatest member of \<open>D\<close>, or NaN when \<open>D\<close> holds a NaN.
\<close>

definition is_largest :: "float64 \<Rightarrow> float64 set \<Rightarrow> bool" where
  "is_largest r D = (if NaN \<in> D then r = NaN else r \<in> D \<and> (\<forall>d\<in>D. f64_le d r))"

definition float64_distance :: "point64 \<Rightarrow> point64 \<Rightarrow> float64" where
  "float64_distance facility customer =
     (let dx = fsub (fst customer) (fst facility);
          dy = fsub (snd customer) (snd facility)
      in fsqrt (fadd (fmul dx dx) (fmul dy dy)))"

definition is_service_radius ::
  "float64 \<Rightarrow> point64 \<Rightarrow> point64 list \<Rightarrow> nat list \<Rightarrow> nat \<Rightarrow> bool" where
  "is_service_radius r facility customers labels i =
     (if assigned_customers customers labels i = {} then r = Finite 0
      else is_largest r (float64_distance facility ` assigned_customers customers labels i))"

text \<open>
  A store as the calculate action leaves it: two customers, one initial facility, and the
  result of clustering them into one cluster.
\<close>

definition example_store :: data_manager where
  "example_store =
     set_optimal_facilities
       (add_initial_facility (add_customer (add_customer DataManager_init 2 3) 4 5) 1 1)
       [(3, 4)] [0, 0]"

section \<open>Properties of the data store\<close>

text \<open>
  C9. \<^verbatim>\<open>add_customer(x, y)\<close> appends exactly \<open>(x, y)\<close> to the end of the customer
  sequence and leaves the initial facility sequence and the stored result as they were;
  \<^verbatim>\<open>add_initial_facility(x, y)\<close> does the same for the initial facility sequence. A
  result computed earlier therefore stays stored after a point is added.
\<close>

theorem add_point_frame:
  "customer_data (add_customer dm x y) = customer_data dm @ [(x, y)]
   \<and> initial_facility_locations (add_customer dm x y) = initial_facility_locations dm
   \<and> optimal_facility_locations (add_customer dm x y) = optimal_facility_locations dm
   \<and> cluster_labels (add_customer dm x y) = cluster_labels dm
   \<and> initial_facility_locations (add_initial_facility dm x y) =
       initial_facility_locations dm @ [(x, y)]
   \<and> customer_data (add_initial_facility dm x y) = customer_data dm
   \<and> optimal_facility_locations (add_initial_facility dm x y) = optimal_facility_locations dm
   \<and> cluster_labels (add_initial_facility dm x y) = cluster_labels dm"
  by (simp add: add_customer_def add_initial_facility_def)

text \<open>
  C4. Clearing the customers should reset the stored result, as clearing the facilities
  does. On \<open>example_store\<close> it does not: \<^verbatim>\<open>clear_customers\<close> empties the customer
  sequence and leaves the stored locations and both stale labels in place. When one customer
  is added afterwards, the plotter indexes the one-row customer array with the two-entry
  label mask, which raises \<^verbatim>\<open>IndexError\<close>.
\<close>

theorem clear_customers_leaves_stale_result:
  "customer_data (clear_customers example_store) = []
   \<and> optimal_facility_locations (clear_customers example_store) = Some [(3, 4)]
   \<and> cluster_labels (clear_customers example_store) = Some [0, 0]
   \<and> optimal_facility_locations (clear_facilities example_store) = None
   \<and> cluster_labels (clear_facilities example_store) = None
   \<and> customer_data (add_customer (clear_customers example_store) 6 7) = [(6, 7)]
   \<and> cluster_labels (add_customer (clear_customers example_store) 6 7) = Some [0, 0]
   \<and> boolean_index (customer_data (add_customer (clear_customers example_store) 6 7))
         (np_equal [0, 0] 0) = Inl IndexError"
  by (simp add: example_store_def clear_customers_def clear_facilities_def
        set_optimal_facilities_def add_customer_def add_initial_facility_def
        DataManager_init_def boolean_index_def np_equal_def)

subsection \<open>The two result attributes go together\<close>

lemma import_customers_result_fields:
  "optimal_facility_locations (fst (import_customers_excel filepath read_excel dm)) =
     optimal_facility_locations dm
   \<and> cluster_labels (fst (import_customers_excel filepath read_excel dm)) = cluster_labels dm"
  by (simp add: import_customers_excel_def split: sum.splits option.splits)

lemma import_facilities_result_fields:
  "optimal_facility_locations (fst (import_facilities_excel filepath read_excel dm)) =
     optimal_facility_locations dm
   \<and> cluster_labels (fst (import_facilities_excel filepath read_excel dm)) = cluster_labels dm"
  by (simp add: import_facilities_excel_def split: sum.splits option.splits)

lemma untouched_result_fields:
  "\<not> touches_result op \<Longrightarrow>
   optimal_facility_locations (apply_op dm op) = optimal_facility_locations dm
   \<and> cluster_labels (apply_op dm op) = cluster_labels dm"
  by (cases op)
     (simp_all add: add_customer_def add_initial_facility_def clear_customers_def
        import_customers_result_fields import_facilities_result_fields)

lemma apply_op_result_inv: "result_inv dm \<Longrightarrow> result_inv (apply_op dm op)"
proof (cases "touches_result op")
  case False
  assume "result_inv dm"
  with untouched_result_fields [OF False, of dm] show ?thesis
    by (simp add: result_inv_def)
next
  case True
  then show ?thesis
    by (cases op) (simp_all add: result_inv_def clear_facilities_def set_optimal_facilities_def)
qed

lemma foldl_apply_op_result_inv: "result_inv dm \<Longrightarrow> result_inv (foldl apply_op dm ops)"
  by (induction ops arbitrary: dm) (simp_all add: apply_op_result_inv)

lemma init_result_inv: "result_inv DataManager_init"
  by (simp add: result_inv_def DataManager_init_def)

text \<open>
  C10. The stored optimal facility locations and the stored cluster labels are both absent
  or both present: a new store has both absent, every operation keeps the two together,
  and so they are together after any sequence of operations. \<^verbatim>\<open>set_optimal_facilities\<close> sets both,
  \<^verbatim>\<open>clear_facilities\<close> resets both, and every other operation leaves both as they were.
\<close>

theorem result_fields_both_or_neither:
  "optimal_facility_locations DataManager_init = None
   \<and> cluster_labels DataManager_init = None
   \<and> result_inv DataManager_init
   \<and> (result_inv dm \<longrightarrow> result_inv (apply_op dm op))
   \<and> result_inv (run_ops ops)
   \<and> optimal_facility_locations (set_optimal_facilities dm locations labels) = Some locations
   \<and> cluster_labels (set_optimal_facilities dm locations labels) = Some labels
   \<and> optimal_facility_locations (clear_facilities dm) = None
   \<and> cluster_labels (clear_facilities dm) = None
   \<and> (\<not> touches_result op \<longrightarrow>
        optimal_facility_locations (apply_op dm op) = optimal_facility_locations dm
        \<and> cluster_labels (apply_op dm op) = cluster_labels dm)"
proof -
  have "optimal_facility_locations DataManager_init = None"
    and "cluster_labels DataManager_init = None"
    by (simp_all add: DataManager_init_def)
  then show ?thesis
    using untouched_result_fields [of op dm]
    by (simp add: init_result_inv apply_op_result_inv run_ops_def foldl_apply_op_result_inv
          set_optimal_facilities_def clear_facilities_def)
qed

text \<open>A store holding a result, to which a customer is then added.\<close>

theorem result_fields_both_or_neither_witness:
  "result_inv (set_optimal_facilities DataManager_init [(2, 3)] [0])
   \<and> \<not> touches_result (AddCustomer 4 5)
   \<and> result_inv (apply_op (set_optimal_facilities DataManager_init [(2, 3)] [0]) (AddCustomer 4 5))
   \<and> optimal_facility_locations
        (apply_op (set_optimal_facilities DataManager_init [(2, 3)] [0]) (AddCustomer 4 5)) =
      Some [(2, 3)]
   \<and> cluster_labels
        (apply_op (set_optimal_facilities DataManager_init [(2, 3)] [0]) (AddCustomer 4 5)) =
      Some [0]"
  using result_fields_both_or_neither
          [of "set_optimal_facilities DataManager_init [(2, 3)] [0]" "AddCustomer 4 5" "[]" "[]" "[]"]
  by (simp add: result_inv_def set_optimal_facilities_def DataManager_init_def)

section \<open>The calculate action\<close>

text \<open>
  C5. When the clustering call made by the calculate action raises, the action shows one
  error message carrying the exception's text and returns with the store exactly as it
  was: customers, initial facilities and stored result. The call is made only when both
  sequences are non-empty.
\<close>

theorem run_calculation_failure_keeps_store:
  assumes "customer_data dm \<noteq> []" and "initial_facility_locations dm \<noteq> []"
    and "run_kmeans fit (customer_data dm) (initial_facility_locations dm) = Inl e"
  shows "run_calculation fit update_display dm =
           (dm, [ShowError ''Error'' (''An error occurred during calculation: '' @ str e)])"
  using assms by (simp add: run_calculation_def)

theorem run_calculation_failure_keeps_store_witness:
  "customer_data (add_initial_facility (add_customer DataManager_init 2 3) 1 1) \<noteq> []
   \<and> initial_facility_locations (add_initial_facility (add_customer DataManager_init 2 3) 1 1) \<noteq> []
   \<and> run_kmeans (\<lambda>p X. Inl (Exception ''bad input''))
        (customer_data (add_initial_facility (add_customer DataManager_init 2 3) 1 1))
        (initial_facility_locations (add_initial_facility (add_customer DataManager_init 2 3) 1 1)) =
      Inl (Exception ''bad input'')
   \<and> run_calculation (\<lambda>p X. Inl (Exception ''bad input'')) (\<lambda>dm. None)
        (add_initial_facility (add_customer DataManager_init 2 3) 1 1) =
      (add_initial_facility (add_customer DataManager_init 2 3) 1 1,
       [ShowError ''Error'' ''An error occurred during calculation: bad input''])"
proof -
  let ?dm = "add_initial_facility (add_customer DataManager_init 2 3) 1 1"
  let ?fit = "\<lambda>(p::kmeans_params) (X::point list).
                (Inl (Exception ''bad input'') :: exn + (point list \<times> nat list))"
  have c: "customer_data ?dm \<noteq> []"
    by (simp add: add_initial_facility_def add_customer_def)
  have f: "initial_facility_locations ?dm \<noteq> []"
    by (simp add: add_initial_facility_def add_customer_def)
  have r: "run_kmeans ?fit (customer_data ?dm) (initial_facility_locations ?dm) =
             Inl (Exception ''bad input'')"
    by (simp add: run_kmeans_def)
  from run_calculation_failure_keeps_store [OF c f r, of "\<lambda>dm. None"] c f r
  show ?thesis by simp
qed

section \<open>Service radii\<close>

subsection \<open>Rounding a power of two\<close>

lemma round_half_even_of_int: "round_half_even (of_int n) = n"
  by (simp add: round_half_even_def)

lemma round64_zero: "round64 0 = Finite 0"
  by (simp add: round64_def)

lemma floor_log2_pow: "\<lfloor>log 2 (2 ^ k)\<rfloor> = int k"
  by simp

lemma round64_scaled:
  assumes "r \<noteq> 0" and "r = of_int m * (2::real) powr of_int (max \<lfloor>log 2 \<bar>r\<bar>\<rfloor> (- 1022) - 52)"
  shows "round64 r =
           (if 2 ^ 1024 \<le> r then PInf else if r \<le> - (2 ^ 1024) then NInf else Finite r)"
proof -
  define u :: real where "u = 2 powr of_int (max \<lfloor>log 2 \<bar>r\<bar>\<rfloor> (- 1022) - 52)"
  have u: "u > 0" by (simp add: u_def)
  have r: "r = of_int m * u" using assms(2) by (simp add: u_def)
  then have "r / u = of_int m" using u by simp
  then have "of_int (round_half_even (r / u)) * u = r"
    using r by (simp add: round_half_even_of_int)
  then show ?thesis
    using assms(1) by (simp add: round64_def Let_def u_def)
qed

lemma round64_pow2:
  "round64 (2 ^ k) = (if 1024 \<le> k then PInf else Finite (2 ^ k))"
proof -
  have e: "max \<lfloor>log 2 \<bar>2 ^ k :: real\<bar>\<rfloor> (- 1022) = int k" by simp
  have "(2::real) ^ k = 2 powr (52 + (real k - 52))"
    by (simp add: powr_realpow)
  also have "\<dots> = 2 powr 52 * 2 powr (real k - 52)"
    by (rule powr_add)
  also have "(2::real) powr 52 = of_int (2 ^ 52)"
    using powr_realpow [of 2 52] by simp
  also have "real k - 52 = of_int (int k - 52)"
    by simp
  finally have "(2::real) ^ k = of_int (2 ^ 52) * 2 powr of_int (max \<lfloor>log 2 \<bar>2 ^ k :: real\<bar>\<rfloor> (- 1022) - 52)"
    unfolding e .
  from round64_scaled [OF _ this] have
    "round64 (2 ^ k) = (if (2::real) ^ 1024 \<le> 2 ^ k then PInf else if (2::real) ^ k \<le> - (2 ^ 1024) then NInf else Finite (2 ^ k))"
    by simp
  moreover have "\<not> (2::real) ^ k \<le> - (2 ^ 1024)"
    by (smt (verit) zero_less_power)
  moreover have "((2::real) ^ 1024 \<le> 2 ^ k) = (1024 \<le> k)"
    by (rule power_increasing_iff) simp
  ultimately show ?thesis by simp
qed


lemma round64_neg_pow2:
  "round64 (- (2 ^ k)) = (if 1024 \<le> k then NInf else Finite (- (2 ^ k)))"
proof -
  have e: "max \<lfloor>log 2 \<bar>- (2 ^ k) :: real\<bar>\<rfloor> (- 1022) = int k" by simp
  have "(2::real) ^ k = 2 powr (52 + (real k - 52))"
    by (simp add: powr_realpow)
  also have "\<dots> = 2 powr 52 * 2 powr (real k - 52)"
    by (rule powr_add)
  also have "(2::real) powr 52 = of_int (2 ^ 52)"
    using powr_realpow [of 2 52] by simp
  also have "real k - 52 = of_int (int k - 52)"
    by simp
  finally have "- ((2::real) ^ k) =
      of_int (- (2 ^ 52)) * 2 powr of_int (max \<lfloor>log 2 \<bar>- (2 ^ k) :: real\<bar>\<rfloor> (- 1022) - 52)"
    unfolding e by simp
  from round64_scaled [OF _ this] have
    "round64 (- (2 ^ k)) =
       (if (2::real) ^ 1024 \<le> - (2 ^ k) then PInf
        else if - ((2::real) ^ k) \<le> - (2 ^ 1024) then NInf else Finite (- (2 ^ k)))"
    by simp
  moreover have "\<not> (2::real) ^ 1024 \<le> - (2 ^ k)"
    by (smt (verit) zero_less_power)
  moreover have "((2::real) ^ 1024 \<le> 2 ^ k) = (1024 \<le> k)"
    by (rule power_increasing_iff) simp
  ultimately show ?thesis by simp
qed

subsection \<open>The largest of a list of doubles\<close>

lemma f64_le_refl: "a \<noteq> NaN \<Longrightarrow> f64_le a a"
  by (cases a) simp_all

lemma f64_le_total: "a \<noteq> NaN \<Longrightarrow> b \<noteq> NaN \<Longrightarrow> f64_le a b \<or> f64_le b a"
  by (cases a; cases b) auto

lemma f64_le_trans: "f64_le a b \<Longrightarrow> f64_le b c \<Longrightarrow> f64_le a c"
  by (cases a; cases b; cases c) auto

lemma f64_le_antisym: "f64_le a b \<Longrightarrow> f64_le b a \<Longrightarrow> a = b"
  by (cases a; cases b) auto

lemma is_largest_single: "is_largest d {d}"
  by (simp add: is_largest_def f64_le_refl)

lemma is_largest_insert:
  assumes "is_largest a D"
  shows "is_largest (np_maximum a x) (insert x D)"
proof (cases "x = NaN \<or> NaN \<in> D")
  case True
  with assms show ?thesis by (auto simp: is_largest_def np_maximum_def)
next
  case False
  with assms have a: "a \<in> D" "a \<noteq> NaN" and le: "\<forall>d\<in>D. f64_le d a"
    by (auto simp: is_largest_def)
  show ?thesis
  proof (cases "f64_le x a")
    case True
    with False a le show ?thesis by (auto simp: is_largest_def np_maximum_def)
  next
    case nle: False
    with False a f64_le_total [of a x] have "f64_le a x" by auto
    with le have "\<forall>d\<in>D. f64_le d x" by (blast intro: f64_le_trans)
    with False a nle show ?thesis
      by (auto simp: is_largest_def np_maximum_def f64_le_refl)
  qed
qed

lemma fold_np_maximum_largest:
  "is_largest a D \<Longrightarrow> is_largest (fold (\<lambda>x acc. np_maximum acc x) ds a) (D \<union> set ds)"
proof (induction ds arbitrary: a D)
  case Nil
  then show ?case by simp
next
  case (Cons x ds)
  from Cons.IH [OF is_largest_insert [OF Cons.prems, of x]] show ?case by simp
qed

lemma np_max_largest: "ds \<noteq> [] \<Longrightarrow> \<exists>r. np_max ds = Inr r \<and> is_largest r (set ds)"
proof (cases ds)
  case Nil
  assume "ds \<noteq> []"
  with Nil show ?thesis by simp
next
  case (Cons d rest)
  from fold_np_maximum_largest [OF is_largest_single [of d], of rest] Cons show ?thesis by simp
qed

lemma is_largest_unique: "is_largest r D \<Longrightarrow> is_largest r' D \<Longrightarrow> r = r'"
  by (auto simp: is_largest_def split: if_splits intro: f64_le_antisym)

subsection \<open>The loop computes the largest float64 distance\<close>

lemma boolean_index_same_length:
  "length labels = length customers \<Longrightarrow>
   boolean_index customers (np_equal labels i) =
     Inr (map fst (filter snd (zip customers (map (\<lambda>l. l = i) labels))))"
  by (simp add: boolean_index_def np_equal_def)

lemma set_selected:
  "length labels = length customers \<Longrightarrow>
   set (map fst (filter snd (zip customers (map (\<lambda>l. l = i) labels)))) =
     assigned_customers customers labels i"
  by (force simp: assigned_customers_def set_zip image_iff)

lemma distances_map:
  "linalg_norm_axis1 (subtract_row ps c) = map (float64_distance c) ps"
  by (simp add: linalg_norm_axis1_def subtract_row_def float64_distance_def case_prod_beta Let_def)

lemma distances_set:
  "set (linalg_norm_axis1 (subtract_row ps c)) = float64_distance c ` set ps"
  by (simp add: distances_map)

lemma cluster_radius_spec:
  assumes "length labels = length customers"
  shows "\<exists>r. cluster_radius customers optimal_locations labels i = Inr r
           \<and> is_service_radius r (optimal_locations ! i) customers labels i"
proof -
  define ps where "ps = map fst (filter snd (zip customers (map (\<lambda>l. l = i) labels)))"
  have sel: "boolean_index customers (np_equal labels i) = Inr ps"
    using assms by (simp add: boolean_index_same_length ps_def)
  have set_ps: "set ps = assigned_customers customers labels i"
    unfolding ps_def using assms by (rule set_selected)
  show ?thesis
  proof (cases "ps = []")
    case True
    with set_ps have "assigned_customers customers labels i = {}" by simp
    with True sel show ?thesis
      by (simp add: cluster_radius_def is_service_radius_def)
  next
    case False
    with set_ps have ne: "assigned_customers customers labels i \<noteq> {}" by auto
    from False have "linalg_norm_axis1 (subtract_row ps (optimal_locations ! i)) \<noteq> []"
      by (simp add: linalg_norm_axis1_def subtract_row_def)
    from np_max_largest [OF this] obtain r where
      "np_max (linalg_norm_axis1 (subtract_row ps (optimal_locations ! i))) = Inr r"
      "is_largest r (float64_distance (optimal_locations ! i) ` set ps)"
      by (auto simp: distances_set)
    with False sel ne set_ps show ?thesis
      by (simp add: cluster_radius_def is_service_radius_def)
  qed
qed

lemma radii_loop_spec:
  assumes "length labels = length customers"
  shows "\<exists>rs. radii_loop customers optimal_locations labels idxs radii = Inr (radii @ rs)
           \<and> length rs = length idxs
           \<and> (\<forall>n<length idxs.
                 is_service_radius (rs ! n) (optimal_locations ! (idxs ! n)) customers labels
                   (idxs ! n))"
proof (induction idxs arbitrary: radii)
  case Nil
  then show ?case by simp
next
  case (Cons i rest)
  from cluster_radius_spec [OF assms, of optimal_locations i] obtain r where
    r: "cluster_radius customers optimal_locations labels i = Inr r"
       "is_service_radius r (optimal_locations ! i) customers labels i"
    by blast
  from Cons.IH [of "radii @ [r]"] obtain rs where
    rs: "radii_loop customers optimal_locations labels rest (radii @ [r]) =
           Inr ((radii @ [r]) @ rs)"
        "length rs = length rest"
        "\<forall>n<length rest.
            is_service_radius (rs ! n) (optimal_locations ! (rest ! n)) customers labels (rest ! n)"
    by blast
  have "\<forall>n<length (i # rest).
          is_service_radius ((r # rs) ! n) (optimal_locations ! ((i # rest) ! n)) customers labels
            ((i # rest) ! n)"
    using r(2) rs(3) by (auto simp: nth_Cons split: nat.splits)
  with r(1) rs(1,2) show ?case
    by (intro exI [of _ "r # rs"]) simp
qed

lemma service_radii_spec:
  assumes "length labels = length customers"
  shows "\<exists>radii. service_radii customers optimal_locations labels = Inr radii
           \<and> length radii = length optimal_locations
           \<and> (\<forall>i<length optimal_locations.
                 is_service_radius (radii ! i) (optimal_locations ! i) customers labels i)"
  using radii_loop_spec [OF assms, of optimal_locations "[0..<length optimal_locations]" "[]"]
  by (auto simp: service_radii_def)

lemma cluster_radius_mismatch:
  "length labels \<noteq> length customers \<Longrightarrow>
   cluster_radius customers optimal_locations labels i = Inl IndexError"
  by (simp add: cluster_radius_def boolean_index_def np_equal_def)

lemma service_radii_mismatch:
  assumes "length labels \<noteq> length customers" and "optimal_locations \<noteq> []"
  shows "service_radii customers optimal_locations labels = Inl IndexError"
proof -
  from assms(2) have "[0..<length optimal_locations] = 0 # [1..<length optimal_locations]"
    by (simp add: upt_conv_Cons)
  with assms(1) show ?thesis
    by (simp add: service_radii_def cluster_radius_mismatch)
qed

lemma overflow_distance:
  assumes "512 \<le> k" "k < 1024"
  shows "float64_distance (Finite 0, Finite 0) (Finite (2 ^ k), Finite 0) = PInf"
    and "float64_distance (Finite 0, Finite 0) (Finite (- (2 ^ k)), Finite 0) = PInf"
proof -
  have "(2::real) ^ k * 2 ^ k = 2 ^ (k + k)" by (simp add: power_add)
  moreover from assms have "1024 \<le> k + k" by simp
  ultimately have sq: "round64 (2 ^ k * 2 ^ k) = PInf"
    by (simp add: round64_pow2)
  from assms show "float64_distance (Finite 0, Finite 0) (Finite (2 ^ k), Finite 0) = PInf"
    by (simp add: float64_distance_def round64_pow2 round64_zero sq)
  from assms show "float64_distance (Finite 0, Finite 0) (Finite (- (2 ^ k)), Finite 0) = PInf"
    by (simp add: float64_distance_def round64_neg_pow2 round64_zero sq)
qed


lemma spec_distance_axis:
  "euclidean_distance (0, 0) (2 ^ k, 0) = 2 ^ k"
  "euclidean_distance (0, 0) (- (2 ^ k), 0) = 2 ^ k"
  by (simp_all add: euclidean_distance_def)

lemma assigned_two:
  "assigned_customers [a, b] [0, 0] 0 = {a, b}"
  using set_selected [of "[0, 0]" "[a, b]" 0] by auto

lemma overflow_radii:
  assumes "512 \<le> k" "k < 1024"
  shows "service_radii [(Finite (2 ^ k), Finite 0), (Finite (- (2 ^ k)), Finite 0)]
           [(Finite 0, Finite 0)] [0, 0] = Inr [PInf]"
  using assms
  by (simp add: service_radii_def cluster_radius_def boolean_index_def np_equal_def
        distances_map overflow_distance np_maximum_def)

lemma spec_radius_two:
  "spec_service_radius (0, 0) [(2 ^ k, 0), (- (2 ^ k), 0)] [0, 0] 0 = 2 ^ k"
  by (simp add: spec_service_radius_def assigned_two spec_distance_axis)

lemma distance_small:
  "float64_distance (Finite 0, Finite 0) (Finite 2, Finite 0) = Finite 2"
  "float64_distance (Finite 0, Finite 0) (Finite 0, Finite 0) = Finite 0"
  using round64_pow2 [of 1] round64_pow2 [of 2]
  by (simp_all add: float64_distance_def round64_zero)

text \<open>
  C8, as the code has it. Let \<open>i\<close> be the index of a facility of the result. The radii
  are computed whenever there is one label per customer, and whenever they are computed
  the radius of facility \<open>i\<close> is zero when no customer has label \<open>i\<close>, and otherwise the
  largest of the distances from the facility to the customers labelled \<open>i\<close> as numpy
  computes them in float64: each a rounded value, possibly infinite, zero for distinct
  points, or NaN, in which case the radius is NaN.
\<close>

theorem service_radius_is_largest_float64_distance:
  assumes "i < length optimal_locations"
  shows "(length labels = length customers \<longrightarrow>
            (\<exists>radii. service_radii customers optimal_locations labels = Inr radii))
         \<and> (\<forall>radii. service_radii customers optimal_locations labels = Inr radii \<longrightarrow>
               length radii = length optimal_locations
               \<and> is_service_radius (radii ! i) (optimal_locations ! i) customers labels i)"
proof (cases "length labels = length customers")
  case True
  from service_radii_spec [OF True, of optimal_locations] assms show ?thesis by auto
next
  case False
  from assms have "optimal_locations \<noteq> []" by auto
  with False show ?thesis by (simp add: service_radii_mismatch)
qed


text \<open>
  Two customers and one facility at the origin: the customer at \<open>(2, 0)\<close> is the farther
  one, and the radius is 2.
\<close>

theorem service_radius_is_largest_float64_distance_witness:
  "(0::nat) < length [(Finite 0, Finite 0) :: point64]
   \<and> length [0::nat, 0] = length [(Finite 0, Finite 0), (Finite 2, Finite 0) :: point64]
   \<and> service_radii [(Finite 0, Finite 0), (Finite 2, Finite 0)] [(Finite 0, Finite 0)] [0, 0] =
       Inr [Finite 2]
   \<and> is_service_radius (Finite 2) (Finite 0, Finite 0)
        [(Finite 0, Finite 0), (Finite 2, Finite 0)] [0, 0] 0"
proof -
  have idx: "(0::nat) < length [(Finite 0, Finite 0) :: point64]" by simp
  have run: "service_radii [(Finite 0, Finite 0), (Finite 2, Finite 0)] [(Finite 0, Finite 0)]
               [0, 0] = Inr [Finite 2]"
    by (simp add: service_radii_def cluster_radius_def boolean_index_def np_equal_def
          distances_map distance_small np_maximum_def)
  from service_radius_is_largest_float64_distance
         [OF idx, of "[0, 0]" "[(Finite 0, Finite 0), (Finite 2, Finite 0)]"] run
  show ?thesis by simp
qed


text \<open>
  C8 as stated fails. Two customers at \<open>(2 ^ 600, 0)\<close> and \<open>(- (2 ^ 600), 0)\<close> form one
  cluster around the facility at the origin. The largest Euclidean distance is
  \<open>2 ^ 600\<close>, a double; the square of the coordinate difference overflows, and the radius
  computed is infinite.
\<close>

theorem service_radius_overflow_counterexample:
  "service_radii [(Finite (2 ^ 600), Finite 0), (Finite (- (2 ^ 600)), Finite 0)]
     [(Finite 0, Finite 0)] [0, 0] = Inr [PInf]
   \<and> spec_service_radius (0, 0) [(2 ^ 600, 0), (- (2 ^ 600), 0)] [0, 0] 0 = 2 ^ 600
   \<and> PInf \<noteq> Finite (2 ^ 600)"
  using overflow_radii [of 600] spec_radius_two [of 600] by simp

end
